theory Spec2Isabelle
  imports Main "HOL-Library.Sublist" "HOL-Library.Word" "HOL-Library.AList"
begin

section \<open>JavaScript values shared by the models\<close>

text \<open>
  A thrown JavaScript value is either an \<open>Error\<close> object (its \<open>name\<close> and \<open>message\<close>) or
  any other value, of which the code only ever takes \<open>String(value)\<close>.
\<close>

datatype thrown = JsError (err_name: string) (err_message: string) | NonError string

text \<open>
  Parsed JSON. Numbers are the integers the program uses them for (token counts,
  timestamps, seconds). \<open>undefined\<close> is \<open>None\<close> of \<open>json option\<close>.
\<close>

datatype json = JNull | JBool bool | JNum int | JStr string | JArr "json list"
  | JObj "(string \<times> json) list"

text \<open>JavaScript truthiness of a value that may be \<open>undefined\<close>.\<close>

fun truthy :: "json option \<Rightarrow> bool" where
  "truthy None = False"
| "truthy (Some JNull) = False"
| "truthy (Some (JBool b)) = b"
| "truthy (Some (JNum n)) = (n \<noteq> 0)"
| "truthy (Some (JStr s)) = (s \<noteq> [])"
| "truthy (Some (JArr xs)) = True"
| "truthy (Some (JObj fs)) = True"

text \<open>\<open>a || b\<close> where \<open>b\<close> may itself be \<open>undefined\<close>, and where it is a value.\<close>

definition or_else :: "json option \<Rightarrow> json option \<Rightarrow> json option" where
  "or_else a b = (if truthy a then a else b)"

definition or_default :: "json option \<Rightarrow> json \<Rightarrow> json" where
  "or_default a d = (case a of None \<Rightarrow> d | Some v \<Rightarrow> if truthy (Some v) then v else d)"

text \<open>
  Property reads. \<open>x?.k\<close> is \<open>undefined\<close> on \<open>null\<close> and \<open>undefined\<close>; \<open>x.k\<close> throws a
  \<open>TypeError\<close> on \<open>null\<close>. The property names this program reads (\<open>choices\<close>, \<open>message\<close>,
  \<open>content\<close>, \<open>usage\<close>, \<open>accepts\<close>, \<open>network\<close>, ...) are on no built-in prototype, so only an
  object has them, as an own property.
\<close>

fun opt_prop :: "json option \<Rightarrow> string \<Rightarrow> json option" where
  "opt_prop (Some (JObj fs)) k = map_of fs k"
| "opt_prop _ k = None"

fun get_prop :: "json \<Rightarrow> string \<Rightarrow> thrown + json option" where
  "get_prop JNull k =
     Inl (JsError ''TypeError'' (''Cannot read properties of null (reading '' @ [CHR 0x27] @ k @ [CHR 0x27] @ '')''))"
| "get_prop v k = Inr (opt_prop (Some v) k)"

text \<open>\<open>xs[0]\<close> on a truthy value: the first element of an array, the first character of a
  string, the property \<open>"0"\<close> of an object, \<open>undefined\<close> on a number or a boolean.\<close>

fun index0 :: "json \<Rightarrow> json option" where
  "index0 (JArr []) = None"
| "index0 (JArr (x # xs)) = Some x"
| "index0 (JStr []) = None"
| "index0 (JStr (c # cs)) = Some (JStr [c])"
| "index0 (JObj fs) = map_of fs ''0''"
| "index0 v = None"

subsection \<open>Strings\<close>

text \<open>\<open>String.prototype.includes\<close> and \<open>toLowerCase\<close> (on the ASCII letters).\<close>

fun str_includes :: "string \<Rightarrow> string \<Rightarrow> bool" where
  "str_includes [] needle = (needle = [])"
| "str_includes (c # cs) needle = (prefix needle (c # cs) \<or> str_includes cs needle)"

definition lower_char :: "char \<Rightarrow> char" where
  "lower_char c =
     (case map_of (zip ''ABCDEFGHIJKLMNOPQRSTUVWXYZ'' ''abcdefghijklmnopqrstuvwxyz'') c of
        Some d \<Rightarrow> d | None \<Rightarrow> c)"

definition toLowerCase :: "string \<Rightarrow> string" where
  "toLowerCase s = map lower_char s"

text \<open>Decimal rendering of a number inside a template string.\<close>

definition digit_char :: "nat \<Rightarrow> char" where
  "digit_char d = ''0123456789'' ! (d mod 10)"

function show_nat :: "nat \<Rightarrow> string" where
  "show_nat n = (if n < 10 then [digit_char n] else show_nat (n div 10) @ [digit_char n])"
  by pat_completeness auto
termination
  by (relation "measure id") auto

declare show_nat.simps [simp del]

definition show_int :: "int \<Rightarrow> string" where
  "show_int i = (if i < 0 then CHR ''-'' # show_nat (nat (- i)) else show_nat (nat i))"

section \<open>Provider routing (event-analysis-agent/index.ts, callBlockRun.ts)\<close>

definition BLOCKRUN_MODELS :: "(string \<times> string) list" where
  "BLOCKRUN_MODELS =
    [(''blockrun/gpt-4o'', ''openai/gpt-4o''),
     (''blockrun/gpt-4o-mini'', ''openai/gpt-4o-mini''),
     (''blockrun/gpt-4.1'', ''openai/gpt-4.1''),
     (''blockrun/gpt-5'', ''openai/gpt-5''),
     (''blockrun/o1'', ''openai/o1''),
     (''blockrun/o3-mini'', ''openai/o3-mini''),
     (''blockrun/claude-sonnet-4'', ''anthropic/claude-sonnet-4''),
     (''blockrun/claude-opus-4'', ''anthropic/claude-opus-4''),
     (''blockrun/claude-haiku'', ''anthropic/claude-3-5-haiku-latest''),
     (''blockrun/grok-3'', ''xai/grok-3''),
     (''blockrun/grok-3-fast'', ''xai/grok-3-fast''),
     (''blockrun/grok-3-mini'', ''xai/grok-3-mini''),
     (''blockrun/gemini-2.5-pro'', ''google/gemini-2.5-pro-preview-06-05''),
     (''blockrun/gemini-2.5-flash'', ''google/gemini-2.5-flash-preview-05-20''),
     (''blockrun/deepseek-chat'', ''deepseek/deepseek-chat''),
     (''blockrun/deepseek-reasoner'', ''deepseek/deepseek-reasoner''),
     (''blockrun/qwen-max'', ''qwen/qwen-max''),
     (''blockrun/qwen-plus'', ''qwen/qwen-plus'')]"

text \<open>
  \<open>key in object\<close> is true for the object's own keys and for the property names it
  inherits from \<open>Object.prototype\<close> (the names of the ECMAScript standard and its annex B).
\<close>

definition Object_prototype_keys :: "string list" where
  "Object_prototype_keys =
    [''constructor'', ''hasOwnProperty'', ''isPrototypeOf'', ''propertyIsEnumerable'',
     ''toLocaleString'', ''toString'', ''valueOf'', ''__proto__'', ''__defineGetter__'',
     ''__defineSetter__'', ''__lookupGetter__'', ''__lookupSetter__'']"

definition key_in :: "string \<Rightarrow> (string \<times> 'v) list \<Rightarrow> bool" where
  "key_in k obj = (k \<in> set (map fst obj) \<or> k \<in> set Object_prototype_keys)"

definition isBlockRunModel :: "string \<Rightarrow> bool" where
  "isBlockRunModel model = (prefix ''blockrun/'' model \<or> key_in model BLOCKRUN_MODELS)"

definition OPENAI_MODELS :: "string list" where
  "OPENAI_MODELS = [''gpt-5.2'', ''gpt-5.1'', ''gpt-5-nano'', ''gpt-4.1'', ''gpt-4.1-mini'']"

definition isOpenAIModel :: "string \<Rightarrow> bool" where
  "isOpenAIModel model = (model \<in> set OPENAI_MODELS \<or> prefix ''gpt-'' model)"

datatype provider = blockrun | openai | grok

definition getAIProvider :: "string \<Rightarrow> provider" where
  "getAIProvider model =
     (if isBlockRunModel model then blockrun
      else if isOpenAIModel model then openai
      else grok)"

section \<open>The BlockRun gateway (callBlockRun.ts)\<close>

subsection \<open>Retry classification and backoff\<close>

definition isRetryableError :: "thrown \<Rightarrow> bool" where
  "isRetryableError error =
     (case error of
        JsError nm msg \<Rightarrow>
          (let message = toLowerCase msg in
             str_includes message ''connection'' \<or>
             str_includes message ''tls'' \<or>
             str_includes message ''timeout'' \<or>
             str_includes message ''eof'' \<or>
             str_includes message ''network'' \<or>
             str_includes message ''fetch failed'')
      | NonError v \<Rightarrow> False)"

text \<open>\<open>Math.min(1000 * Math.pow(2, attempt), 10000)\<close>, written at each of the three places
  that sleep before the next attempt.\<close>

definition backoffMs :: "nat \<Rightarrow> nat" where
  "backoffMs attempt = min (1000 * 2 ^ attempt) 10000"

subsection \<open>Fetch with a timeout\<close>

text \<open>
  What an HTTP response offers to this code: status line, the \<open>payment-required\<close> header,
  and the outcome of reading the body as text and as JSON (either read may throw).
\<close>

record response =
  status :: nat
  statusText :: string
  payment_required :: "string option"
  body_text :: "thrown + string"
  body_json :: "thrown + json"

definition ok :: "response \<Rightarrow> bool" where
  "ok r = (200 \<le> status r \<and> status r \<le> 299)"

datatype timer_op = SetTimeout nat | ClearTimeout

text \<open>
  \<open>fetchWithTimeout\<close> arms a timer that aborts the request, awaits the transport and
  disarms the timer on both paths. The transport's outcome is the first argument: a
  response, or the value \<open>fetch\<close> rejected with. An abort through the controller's signal is
  reported by the platform as an error named \<open>AbortError\<close>.
\<close>

definition is_abort_error :: "thrown \<Rightarrow> bool" where
  "is_abort_error error =
     (case error of JsError nm msg \<Rightarrow> nm = ''AbortError'' | NonError v \<Rightarrow> False)"

definition fetchWithTimeout ::
  "thrown + response \<Rightarrow> nat \<Rightarrow> (thrown + response) \<times> timer_op list" where
  "fetchWithTimeout transport timeoutMs =
     (case transport of
        Inr resp \<Rightarrow> (Inr resp, [SetTimeout timeoutMs, ClearTimeout])
      | Inl error \<Rightarrow>
          if is_abort_error error
          then (Inl (JsError ''Error'' (''Request timeout after '' @ show_nat timeoutMs @ ''ms'')),
                [SetTimeout timeoutMs, ClearTimeout])
          else (Inl error, [SetTimeout timeoutMs, ClearTimeout]))"

subsection \<open>Response normalisation\<close>

text \<open>
  The result shape \<open>BlockRunResponseResult\<close>. A field that the code fills with
  \<open>value || default\<close> holds whatever truthy JSON value the upstream sent, so it is a
  \<open>json\<close> here.
\<close>

record output_text =
  ot_type :: string
  ot_text :: json

record output_message =
  msg_content :: "output_text list"
  msg_id :: string
  msg_role :: string
  msg_type :: string
  msg_status :: string

record usage_counts =
  input_tokens :: json
  output_tokens :: json
  total_tokens :: json

record blockrun_meta =
  bm_paymentCost :: "string option"
  bm_citations :: "json option"

record BlockRunResponseResult =
  created_at :: json
  result_id :: json
  result_model :: json
  result_object :: string
  result_output :: "output_message list"
  temperature :: json
  top_p :: json
  usage :: usage_counts
  result_status :: string
  result_blockrun :: blockrun_meta

text \<open>The three \<open>Date.now()\<close> readings (milliseconds) that the normaliser may take.\<close>

record norm_clock =
  t_created :: nat
  t_id :: nat
  t_msg :: nat

definition transformToResponseResult ::
  "json \<Rightarrow> string option \<Rightarrow> norm_clock \<Rightarrow> thrown + BlockRunResponseResult" where
  "transformToResponseResult response cost clk =
     (case get_prop response ''choices'' of
        Inl e \<Rightarrow> Inl e
      | Inr ch \<Rightarrow>
          let choices = or_default ch (JArr []);
              usage_v = or_default (opt_prop (Some response) ''usage'') (JObj []);
              outputText =
                or_default (opt_prop (opt_prop (index0 choices) ''message'') ''content'') (JStr [])
          in Inr \<lparr>
               created_at = or_default (opt_prop (Some response) ''created'')
                              (JNum (int (t_created clk div 1000))),
               result_id = or_default (opt_prop (Some response) ''id'')
                              (JStr (''blockrun-'' @ show_nat (t_id clk))),
               result_model = or_default (opt_prop (Some response) ''model'') (JStr ''unknown''),
               result_object = ''response'',
               result_output = [\<lparr> msg_content = [\<lparr> ot_type = ''output_text'', ot_text = outputText \<rparr>],
                           msg_id = ''msg-'' @ show_nat (t_msg clk),
                           msg_role = ''assistant'',
                           msg_type = ''message'',
                           msg_status = ''completed'' \<rparr>],
               temperature = JNull,
               top_p = JNull,
               usage = \<lparr> input_tokens = or_default (opt_prop (Some usage_v) ''prompt_tokens'') (JNum 0),
                          output_tokens = or_default (opt_prop (Some usage_v) ''completion_tokens'') (JNum 0),
                          total_tokens = or_default (opt_prop (Some usage_v) ''total_tokens'') (JNum 0) \<rparr>,
               result_status = ''completed'',
               result_blockrun = \<lparr> bm_paymentCost = cost,
                             bm_citations = or_else (opt_prop (Some response) ''citations'') None \<rparr>
             \<rparr>)"

subsection \<open>The payment handshake\<close>

text \<open>
  At run time a payment requirement is the JSON object that the challenge carried: the
  code takes the selected option as it is (\<open>paymentRequirements = baseOption\<close>), sets its
  \<open>x402Version\<close> and reads its fields, whatever their JSON types are.
\<close>

fun set_prop :: "json \<Rightarrow> string \<Rightarrow> json \<Rightarrow> json" where
  "set_prop (JObj fs) k v = JObj (AList.update k v fs)"
| "set_prop x k v = x"

text \<open>
  \<open>String(v)\<close>, and \<open>n + v\<close> for a number \<open>n\<close>: numbers (and booleans) add, every other value
  is concatenated as a string. The arithmetic is exact; it is the code's wherever the
  operands and the result are safe integers.
\<close>

fun join_comma :: "string list \<Rightarrow> string" where
  "join_comma [] = []"
| "join_comma [x] = x"
| "join_comma (x # y # ys) = x @ '','' @ join_comma (y # ys)"

fun js_String :: "json \<Rightarrow> string" where
  "js_String JNull = ''null''"
| "js_String (JBool b) = (if b then ''true'' else ''false'')"
| "js_String (JNum n) = show_int n"
| "js_String (JStr s) = s"
| "js_String (JArr xs) = join_comma (map (\<lambda>x. if x = JNull then [] else js_String x) xs)"
| "js_String (JObj fs) = ''[object Object]''"

fun js_plus :: "int \<Rightarrow> json \<Rightarrow> json" where
  "js_plus n (JNum m) = JNum (n + m)"
| "js_plus n (JBool b) = JNum (n + (if b then 1 else 0))"
| "js_plus n JNull = JNum n"
| "js_plus n v = JStr (show_int n @ js_String v)"





text \<open>
  Built-ins and library calls that the handshake relies on and that are outside the
  repository: base64 decoding, JSON parsing, \<open>BigInt\<close> of a value that is not a number, the
  \<open>ethers\<close> wallet and its typed-data signature, and the floating-point rendering
  \<open>(Number(amount) / 1_000_000).toFixed(6)\<close>.
\<close>

record eip712_domain =
  domain_name :: json
  domain_version :: json
  chainId :: nat
  verifyingContract :: "json option"

record transfer_message =
  tm_from :: string
  tm_to :: "json option"
  tm_value :: int
  tm_validAfter :: int
  tm_validBefore :: int
  tm_nonce :: string

record platform =
  atob :: "string \<Rightarrow> thrown + string"
  JSON_parse :: "string \<Rightarrow> thrown + json"
  BigInt :: "json \<Rightarrow> thrown + int"
  Wallet_address :: "string \<Rightarrow> thrown + string"
  signTypedData :: "string \<Rightarrow> eip712_domain \<Rightarrow> transfer_message \<Rightarrow> thrown + string"
  dollars_toFixed6 :: "int \<Rightarrow> string"

text \<open>\<open>BigInt(v)\<close>: of an integer number it is that integer.\<close>

definition to_BigInt :: "platform \<Rightarrow> json \<Rightarrow> thrown + int" where
  "to_BigInt pf v = (case v of JNum n \<Rightarrow> Inr n | _ \<Rightarrow> BigInt pf v)"

text \<open>\<open>`${error}`\<close>: \<open>Error.prototype.toString\<close> for an error, \<open>String(v)\<close> otherwise.\<close>

definition string_of_thrown :: "thrown \<Rightarrow> string" where
  "string_of_thrown e =
     (case e of
        JsError nm msg \<Rightarrow> if nm = [] then msg else if msg = [] then nm else nm @ '': '' @ msg
      | NonError v \<Rightarrow> v)"

text \<open>\<open>accepts.find(a => a.network === "eip155:8453" || a.network === "base")\<close>; reading
  \<open>a.network\<close> throws on a \<open>null\<close> element met before a match.\<close>

fun find_base :: "json list \<Rightarrow> thrown + json option" where
  "find_base [] = Inr None"
| "find_base (a # as) =
     (case get_prop a ''network'' of
        Inl e \<Rightarrow> Inl e
      | Inr n \<Rightarrow>
          if n = Some (JStr ''eip155:8453'') \<or> n = Some (JStr ''base'') then Inr (Some a)
          else find_base as)"

text \<open>Step 2 of an attempt: the inner \<open>try\<close> and its \<open>catch\<close>, which wraps every failure.\<close>

definition select_base_option :: "platform \<Rightarrow> string \<Rightarrow> thrown + json" where
  "select_base_option pf header =
     (case atob pf header of
        Inl e \<Rightarrow> Inl e
      | Inr decoded \<Rightarrow>
          (case JSON_parse pf decoded of
             Inl e \<Rightarrow> Inl e
           | Inr parsed \<Rightarrow>
               (case get_prop parsed ''accepts'' of
                  Inl e \<Rightarrow> Inl e
                | Inr acc \<Rightarrow>
                    (case or_default acc (JArr [parsed]) of
                       JArr accepts \<Rightarrow>
                         (case find_base accepts of
                            Inl e \<Rightarrow> Inl e
                          | Inr None \<Rightarrow>
                              Inl (JsError ''Error'' ''BlockRun does not accept Base network payments'')
                          | Inr (Some baseOption) \<Rightarrow>
                              Inr (set_prop baseOption ''x402Version''
                                     (or_default (opt_prop (Some parsed) ''x402Version'') (JNum 2))))
                     | _ \<Rightarrow> Inl (JsError ''TypeError'' ''accepts.find is not a function'')))))"

definition parse_payment_requirements :: "platform \<Rightarrow> string \<Rightarrow> thrown + json" where
  "parse_payment_requirements pf header =
     (case select_base_option pf header of
        Inl parseError \<Rightarrow>
          Inl (JsError ''Error'' (''Failed to parse payment requirements: '' @ string_of_thrown parseError))
      | Inr req \<Rightarrow> Inr req)"

text \<open>\<open>paymentRequirements.amount || paymentRequirements.maxAmountRequired || "0"\<close>\<close>

definition amount_of :: "json \<Rightarrow> json" where
  "amount_of req =
     or_default (or_else (opt_prop (Some req) ''amount'') (opt_prop (Some req) ''maxAmountRequired''))
       (JStr ''0'')"

text \<open>\<open>paymentRequirements.maxTimeoutSeconds || 300\<close>\<close>

definition timeout_of :: "json \<Rightarrow> json" where
  "timeout_of req = or_default (opt_prop (Some req) ''maxTimeoutSeconds'') (JNum 300)"

definition formatUsdcCost :: "platform \<Rightarrow> json \<Rightarrow> string" where
  "formatUsdcCost pf atomicUnits =
     (case to_BigInt pf atomicUnits of
        Inl e \<Rightarrow> ''Unknown''
      | Inr amt \<Rightarrow> CHR ''$'' # dollars_toFixed6 pf amt)"

text \<open>\<open>createNonce\<close>: the 32 bytes that this call's \<open>crypto.getRandomValues\<close> wrote, each as
  two hex digits.\<close>

definition hex_digit :: "nat \<Rightarrow> char" where
  "hex_digit d = ''0123456789abcdef'' ! (d mod 16)"

definition hex_byte :: "8 word \<Rightarrow> string" where
  "hex_byte b = [hex_digit (unat b div 16), hex_digit (unat b)]"

definition createNonce :: "(nat \<Rightarrow> 8 word) \<Rightarrow> string" where
  "createNonce randomBytes = ''0x'' @ concat (map (\<lambda>i. hex_byte (randomBytes i)) [0..<32])"

record authorization =
  auth_from :: string
  auth_to :: "json option"
  auth_value :: json
  validAfter :: string
  validBefore :: string
  nonce :: string

text \<open>
  The authorization of lines 164-177, from the wallet's address, the clock (\<open>Date.now()\<close>,
  an integer number of milliseconds, of which \<open>Math.floor(ms / 1000)\<close> is the integer
  quotient) and the random bytes drawn for this authorization.
\<close>

definition make_authorization ::
  "string \<Rightarrow> json \<Rightarrow> nat \<Rightarrow> (nat \<Rightarrow> 8 word) \<Rightarrow> authorization" where
  "make_authorization fromAddress req date_ms randomBytes =
     (let now = int (date_ms div 1000);
          validAfter_v = now - 600;
          validBefore_v = js_plus now (timeout_of req)
      in \<lparr> auth_from = fromAddress,
           auth_to = opt_prop (Some req) ''payTo'',
           auth_value = amount_of req,
           validAfter = show_int validAfter_v,
           validBefore = js_String validBefore_v,
           nonce = createNonce randomBytes \<rparr>)"

record accepted_option =
  acc_scheme :: json
  acc_network :: "json option"
  acc_asset :: "json option"
  acc_amount :: json
  acc_payTo :: "json option"
  acc_maxTimeoutSeconds :: json
  acc_extra :: json

record payment_payload =
  pp_x402Version :: json
  pp_resource_url :: string
  pp_accepted :: accepted_option
  pp_authorization :: authorization
  pp_signature :: string

text \<open>
  \<open>createBlockRunPaymentHeader\<close>. The header it returns is the base64 of the JSON of the
  payload; the model returns the payload itself.
\<close>

definition createBlockRunPaymentHeader ::
  "platform \<Rightarrow> string \<Rightarrow> json \<Rightarrow> string \<Rightarrow> nat \<Rightarrow> (nat \<Rightarrow> 8 word)
     \<Rightarrow> thrown + payment_payload" where
  "createBlockRunPaymentHeader pf walletKey req resourceUrl date_ms randomBytes =
     (case Wallet_address pf walletKey of
        Inl e \<Rightarrow> Inl e
      | Inr fromAddress \<Rightarrow>
          let auth = make_authorization fromAddress req date_ms randomBytes;
              now = int (date_ms div 1000);
              ex = or_default (opt_prop (Some req) ''extra'')
                     (JObj [(''name'', JStr ''USD Coin''), (''version'', JStr ''2'')]);
              domain = \<lparr> domain_name = or_default (opt_prop (Some ex) ''name'') (JStr ''USD Coin''),
                         domain_version = or_default (opt_prop (Some ex) ''version'') (JStr ''2''),
                         chainId = 8453,
                         verifyingContract = opt_prop (Some req) ''asset'' \<rparr>
          in (case to_BigInt pf (amount_of req) of
                Inl e \<Rightarrow> Inl e
              | Inr v \<Rightarrow>
                  (case to_BigInt pf (js_plus now (timeout_of req)) of
                     Inl e \<Rightarrow> Inl e
                   | Inr vb \<Rightarrow>
                       (case signTypedData pf walletKey domain
                               \<lparr> tm_from = fromAddress, tm_to = opt_prop (Some req) ''payTo'',
                                 tm_value = v, tm_validAfter = now - 600, tm_validBefore = vb,
                                 tm_nonce = nonce auth \<rparr> of
                          Inl e \<Rightarrow> Inl e
                        | Inr signature \<Rightarrow>
                            Inr \<lparr> pp_x402Version =
                                    or_default (opt_prop (Some req) ''x402Version'') (JNum 2),
                                  pp_resource_url = resourceUrl,
                                  pp_accepted =
                                    \<lparr> acc_scheme =
                                        or_default (opt_prop (Some req) ''scheme'') (JStr ''exact''),
                                      acc_network = opt_prop (Some req) ''network'',
                                      acc_asset = opt_prop (Some req) ''asset'',
                                      acc_amount = amount_of req,
                                      acc_payTo = opt_prop (Some req) ''payTo'',
                                      acc_maxTimeoutSeconds = timeout_of req,
                                      acc_extra =
                                        or_default (opt_prop (Some req) ''extra'') (JObj []) \<rparr>,
                                  pp_authorization = auth,
                                  pp_signature = signature \<rparr>))))"

subsection \<open>The retry loop of callBlockRunResponses\<close>

text \<open>
  What the outside world does during attempt number \<open>i\<close>: the transport's outcome for the
  unauthenticated request and for the paid request, and the clock and random bytes read
  by the signer and the normaliser. The request body is the same at every attempt.
\<close>

record attempt_env =
  initial :: "thrown + response"
  paid :: "thrown + response"
  date_now :: nat
  random_bytes :: "nat \<Rightarrow> 8 word"
  clock :: norm_clock

text \<open>The observable effects of a call, in order.\<close>

datatype event = InitialRequest | PaidRequest payment_payload | Sleep nat

text \<open>How control leaves the \<open>try\<close> block of one attempt: \<open>return\<close>, a \<open>throw\<close> (which
  the \<open>catch\<close> of the same attempt receives), or \<open>continue\<close> after a sleep.\<close>

datatype try_exit = Returned BlockRunResponseResult | Threw thrown | Continued thrown

definition BLOCKRUN_API_URL :: string where
  "BLOCKRUN_API_URL = ''https://blockrun.ai/api/v1/chat/completions''"

definition http_error :: "string \<Rightarrow> response \<Rightarrow> string \<Rightarrow> thrown" where
  "http_error what r errorText =
     JsError ''Error'' (what @ show_nat (status r) @ '' '' @ statusText r @ '' - '' @ errorText)"

text \<open>Lines 337-349 and, with the paid response, lines 410-421.\<close>

definition on_http_error :: "thrown \<Rightarrow> response \<Rightarrow> int \<Rightarrow> nat \<Rightarrow> try_exit \<times> event list" where
  "on_http_error error r maxRetries attempt =
     (if 400 \<le> status r \<and> status r < 500 \<and> status r \<noteq> 429 then (Threw error, [])
      else if int attempt < maxRetries then (Continued error, [Sleep (backoffMs attempt)])
      else (Threw error, []))"

text \<open>Steps 3 to 5 of an attempt, after the requirements are known.\<close>

definition pay_and_retry ::
  "platform \<Rightarrow> attempt_env \<Rightarrow> string \<Rightarrow> int \<Rightarrow> nat \<Rightarrow> json
     \<Rightarrow> try_exit \<times> string option \<times> event list" where
  "pay_and_retry pf env walletKey maxRetries attempt req =
     (let cost = Some (formatUsdcCost pf (amount_of req)) in
      case createBlockRunPaymentHeader pf walletKey req BLOCKRUN_API_URL
             (date_now env) (random_bytes env) of
        Inl e \<Rightarrow> (Threw e, cost, [])
      | Inr paymentHeader \<Rightarrow>
          (case fst (fetchWithTimeout (paid env) 120000) of
             Inl e \<Rightarrow> (Threw e, cost, [PaidRequest paymentHeader])
           | Inr paidResponse \<Rightarrow>
               if \<not> ok paidResponse then
                 (case body_text paidResponse of
                    Inl e \<Rightarrow> (Threw e, cost, [PaidRequest paymentHeader])
                  | Inr errorText \<Rightarrow>
                      (case on_http_error
                              (http_error ''BlockRun payment failed: '' paidResponse errorText)
                              paidResponse maxRetries attempt of
                         (ex, evs) \<Rightarrow> (ex, cost, PaidRequest paymentHeader # evs)))
               else
                 (case body_json paidResponse of
                    Inl e \<Rightarrow> (Threw e, cost, [PaidRequest paymentHeader])
                  | Inr rawResponse \<Rightarrow>
                      (case transformToResponseResult rawResponse cost (clock env) of
                         Inl e \<Rightarrow> (Threw e, cost, [PaidRequest paymentHeader])
                       | Inr res \<Rightarrow> (Returned res, cost, [PaidRequest paymentHeader])))))"

text \<open>
  The \<open>try\<close> block of one attempt (lines 308-428). It returns how control left it, the
  value of the variable \<open>paymentCost\<close> afterwards, and the attempt's effects.
\<close>

definition try_block ::
  "platform \<Rightarrow> attempt_env \<Rightarrow> string \<Rightarrow> int \<Rightarrow> nat \<Rightarrow> string option
     \<Rightarrow> try_exit \<times> string option \<times> event list" where
  "try_block pf env walletKey maxRetries attempt paymentCost =
     (case fst (fetchWithTimeout (initial env) 120000) of
        Inl e \<Rightarrow> (Threw e, paymentCost, [InitialRequest])
      | Inr initialResponse \<Rightarrow>
          if status initialResponse \<noteq> 402 then
            (if ok initialResponse then
               (case body_json initialResponse of
                  Inl e \<Rightarrow> (Threw e, paymentCost, [InitialRequest])
                | Inr rawResponse \<Rightarrow>
                    (case transformToResponseResult rawResponse paymentCost (clock env) of
                       Inl e \<Rightarrow> (Threw e, paymentCost, [InitialRequest])
                     | Inr res \<Rightarrow> (Returned res, paymentCost, [InitialRequest])))
             else
               (case body_text initialResponse of
                  Inl e \<Rightarrow> (Threw e, paymentCost, [InitialRequest])
                | Inr errorText \<Rightarrow>
                    (case on_http_error
                            (http_error ''BlockRun API error: '' initialResponse errorText)
                            initialResponse maxRetries attempt of
                       (ex, evs) \<Rightarrow> (ex, paymentCost, InitialRequest # evs))))
          else
            (case payment_required initialResponse of
               None \<Rightarrow>
                 (Threw (JsError ''Error'' ''BlockRun returned 402 but no payment-required header found''),
                  paymentCost, [InitialRequest])
             | Some paymentRequiredHeader \<Rightarrow>
                 if paymentRequiredHeader = [] then
                   (Threw (JsError ''Error'' ''BlockRun returned 402 but no payment-required header found''),
                    paymentCost, [InitialRequest])
                 else
                   (case parse_payment_requirements pf paymentRequiredHeader of
                      Inl e \<Rightarrow> (Threw e, paymentCost, [InitialRequest])
                    | Inr req \<Rightarrow>
                        (case pay_and_retry pf env walletKey maxRetries attempt req of
                           (ex, cost, evs) \<Rightarrow> (ex, cost, InitialRequest # evs)))))"

text \<open>The \<open>catch\<close> of an attempt (lines 430-446): rethrow, or sleep and go on.\<close>

datatype catch_exit = Rethrown thrown | Slept thrown

definition as_Error :: "thrown \<Rightarrow> thrown" where
  "as_Error error = (case error of JsError nm msg \<Rightarrow> error | NonError v \<Rightarrow> JsError ''Error'' v)"

definition catch_block :: "thrown \<Rightarrow> int \<Rightarrow> nat \<Rightarrow> catch_exit \<times> event list" where
  "catch_block error maxRetries attempt =
     (let lastError = as_Error error in
      if \<not> isRetryableError error \<and> attempt = 0 then (Rethrown lastError, [])
      else if int attempt \<ge> maxRetries then (Rethrown lastError, [])
      else (Slept lastError, [Sleep (backoffMs attempt)]))"

text \<open>One iteration of the \<open>for\<close> loop: the call is over with a result or an error, or
  the loop goes on to the next attempt with a new \<open>lastError\<close>.\<close>

datatype iteration = Finished "thrown + BlockRunResponseResult" | NextAttempt thrown

definition attempt_once ::
  "platform \<Rightarrow> attempt_env \<Rightarrow> string \<Rightarrow> int \<Rightarrow> nat \<Rightarrow> string option
     \<Rightarrow> iteration \<times> string option \<times> event list" where
  "attempt_once pf env walletKey maxRetries attempt paymentCost =
     (case try_block pf env walletKey maxRetries attempt paymentCost of
        (Returned res, cost, evs) \<Rightarrow> (Finished (Inr res), cost, evs)
      | (Continued error, cost, evs) \<Rightarrow> (NextAttempt error, cost, evs)
      | (Threw error, cost, evs) \<Rightarrow>
          (case catch_block error maxRetries attempt of
             (Rethrown lastError, evs') \<Rightarrow> (Finished (Inl lastError), cost, evs @ evs')
           | (Slept lastError, evs') \<Rightarrow> (NextAttempt lastError, cost, evs @ evs')))"

function retry_loop ::
  "platform \<Rightarrow> (nat \<Rightarrow> attempt_env) \<Rightarrow> string \<Rightarrow> int \<Rightarrow> nat \<Rightarrow> thrown option \<Rightarrow> string option
     \<Rightarrow> (thrown + BlockRunResponseResult) \<times> event list" where
  "retry_loop pf env walletKey maxRetries attempt lastError paymentCost =
     (if int attempt \<le> maxRetries then
        (case attempt_once pf (env attempt) walletKey maxRetries attempt paymentCost of
           (Finished outcome, cost, evs) \<Rightarrow> (outcome, evs)
         | (NextAttempt error, cost, evs) \<Rightarrow>
             (case retry_loop pf env walletKey maxRetries (Suc attempt) (Some error) cost of
                (outcome, rest) \<Rightarrow> (outcome, evs @ rest)))
      else
        (Inl (case lastError of Some e \<Rightarrow> e | None \<Rightarrow> JsError ''Error'' ''Unknown error occurred''),
         []))"
  by pat_completeness auto
termination
  by (relation "measure (\<lambda>(pf, env, walletKey, maxRetries, attempt, lastError, paymentCost).
        nat (maxRetries + 1 - int attempt))") auto

declare retry_loop.simps [simp del]

definition callBlockRunResponses ::
  "platform \<Rightarrow> (nat \<Rightarrow> attempt_env) \<Rightarrow> string option \<Rightarrow> int
     \<Rightarrow> (thrown + BlockRunResponseResult) \<times> event list" where
  "callBlockRunResponses pf env walletKey maxRetries =
     (case walletKey of
        None \<Rightarrow>
          (Inl (JsError ''Error'' (''BLOCKRUN_WALLET_KEY environment variable is not set. '' @
             ''BlockRun uses wallet-based micropayments instead of API keys. '' @
             ''Set your Base chain private key (0x-prefixed hex) to use BlockRun.'')), [])
      | Some key \<Rightarrow>
          if key = [] then
            (Inl (JsError ''Error'' (''BLOCKRUN_WALLET_KEY environment variable is not set. '' @
               ''BlockRun uses wallet-based micropayments instead of API keys. '' @
               ''Set your Base chain private key (0x-prefixed hex) to use BlockRun.'')), [])
          else retry_loop pf env key maxRetries 0 None None)"

subsection \<open>Reading a trace\<close>

text \<open>The number of attempts of a trace, its sleeps in order, and the trace without the
  paid requests (the order of attempts and sleeps).\<close>

definition attempts :: "event list \<Rightarrow> nat" where
  "attempts tr = length (filter (\<lambda>e. e = InitialRequest) tr)"

definition sleeps :: "event list \<Rightarrow> nat list" where
  "sleeps tr = concat (map (\<lambda>e. case e of Sleep ms \<Rightarrow> [ms] | _ \<Rightarrow> []) tr)"

definition schedule :: "event list \<Rightarrow> event list" where
  "schedule tr = filter (\<lambda>e. case e of PaidRequest h \<Rightarrow> False | _ \<Rightarrow> True) tr"

definition is_continued :: "try_exit \<Rightarrow> bool" where
  "is_continued ex = (case ex of Continued e \<Rightarrow> True | _ \<Rightarrow> False)"

section \<open>The Polymarket client (polymarket/client.ts, polymarket/utils.ts)\<close>

subsection \<open>Data\<close>

text \<open>
  Prices and sizes are JavaScript numbers. Their type is left open (\<open>'n\<close>), and the
  operations on them that the client uses are the fields of \<open>numeric\<close>: the division
  \<open>sizeUsd / price\<close>, \<open>Math.floor\<close>, the rendering \<open>(price * 100).toFixed(1)\<close> and the
  rendering of a number inside a template string.
\<close>

record 'n numeric =
  num_div :: "'n \<Rightarrow> 'n \<Rightarrow> 'n"
  num_floor :: "'n \<Rightarrow> 'n"
  num_percent :: "'n \<Rightarrow> string"
  num_show :: "'n \<Rightarrow> string"

datatype OrderSideType = BUY | SELL

record TokenIds =
  tk_up :: string
  tk_down :: string

record 'n OrderArgs =
  oa_tokenId :: string
  oa_price :: 'n
  oa_size :: 'n
  oa_side :: OrderSideType

record OrderResponse =
  or_success :: bool
  or_orderId :: "json option"
  or_errorMsg :: "string option"
  or_status :: "json option"

datatype log_level = INFO | WARN | ERROR | SUCCESS

datatype 'n detail = DStr string | DNum 'n | DInt int | DJson "json option"

record 'n BotLogEntry =
  le_timestamp :: string
  le_level :: log_level
  le_message :: string
  le_details :: "(string \<times> 'n detail) list option"

text \<open>The configuration as the constructor stores it (\<open>signatureType ?? 1\<close> applied). A key
  or an address that is missing is the empty string, the falsy value of its type.\<close>

record PolymarketClientConfig =
  privateKey :: string
  proxyAddress :: string
  signatureType :: int

text \<open>The \<open>ClobClient\<close> built by \<open>initClobClient\<close>, by the arguments it was built from.\<close>

record clob_handle =
  ch_signer :: string
  ch_creds :: string
  ch_signatureType :: int
  ch_funder :: string

text \<open>
  The client object: \<open>logs\<close> is a reference to an array, \<open>clobClient\<close> is \<open>null\<close> or the
  cached client.
\<close>

record PolymarketClient =
  config :: PolymarketClientConfig
  logs :: nat
  clobClient :: "clob_handle option"

text \<open>The order as \<open>createAndPostOrder\<close> receives it (fee rate 0, tick size 0.01, no
  negative risk, good till cancelled).\<close>

record 'n posted_order =
  po_tokenID :: string
  po_price :: 'n
  po_side :: OrderSideType
  po_size :: 'n

datatype 'n net_call = DeriveApiKey | PostOrder "'n posted_order"

text \<open>
  The store and the world. An array is a list of references to log entries; \<open>next_addr\<close>
  is the next fresh reference. \<open>clock_reads\<close> counts the readings of the clock, \<open>net_calls\<close>
  lists the network calls made through the third-party client, in order.
\<close>

record 'n state =
  arrays :: "nat \<Rightarrow> nat list"
  entries :: "nat \<Rightarrow> 'n BotLogEntry option"
  next_addr :: nat
  clock_reads :: nat
  net_calls :: "'n net_call list"

text \<open>
  What the outside answers: the clock's \<open>k\<close>-th reading as an ISO string, whether
  \<open>new Wallet(key)\<close> throws, and the outcome of the \<open>k\<close>-th network call when it derives the
  API key and when it posts an order.
\<close>

record 'n clob_env =
  iso_time :: "nat \<Rightarrow> string"
  new_Wallet :: "string \<Rightarrow> thrown option"
  createOrDeriveApiKey :: "nat \<Rightarrow> thrown + string"
  createAndPostOrder :: "nat \<Rightarrow> 'n posted_order \<Rightarrow> thrown + json option"

subsection \<open>Logs\<close>

definition new_PolymarketClient ::
  "string \<Rightarrow> string \<Rightarrow> int option \<Rightarrow> 'n state \<Rightarrow> PolymarketClient \<times> 'n state" where
  "new_PolymarketClient key proxy sigType st =
     (\<lparr> config = \<lparr> privateKey = key, proxyAddress = proxy,
                     signatureType = (case sigType of None \<Rightarrow> 1 | Some t \<Rightarrow> t) \<rparr>,
         logs = next_addr st,
         clobClient = None \<rparr>,
      st \<lparr> arrays := (arrays st) (next_addr st := []), next_addr := Suc (next_addr st) \<rparr>)"

text \<open>\<open>getLogs\<close>: \<open>[...this.logs]\<close> is a new array with the same elements.\<close>

definition getLogs :: "PolymarketClient \<Rightarrow> 'n state \<Rightarrow> nat \<times> 'n state" where
  "getLogs c st =
     (next_addr st,
      st \<lparr> arrays := (arrays st) (next_addr st := arrays st (logs c)),
           next_addr := Suc (next_addr st) \<rparr>)"

definition clearLogs :: "PolymarketClient \<Rightarrow> 'n state \<Rightarrow> PolymarketClient \<times> 'n state" where
  "clearLogs c st =
     (c \<lparr> logs := next_addr st \<rparr>,
      st \<lparr> arrays := (arrays st) (next_addr st := []), next_addr := Suc (next_addr st) \<rparr>)"

text \<open>\<open>log\<close>: a new entry, stamped by the clock, is pushed onto the array \<open>this.logs\<close>.\<close>

definition log ::
  "'n clob_env \<Rightarrow> PolymarketClient \<Rightarrow> log_level \<Rightarrow> string \<Rightarrow> (string \<times> 'n detail) list option
     \<Rightarrow> 'n state \<Rightarrow> 'n state" where
  "log env c lvl msg details st =
     st \<lparr> entries := (entries st) (next_addr st \<mapsto>
             \<lparr> le_timestamp = iso_time env (clock_reads st), le_level = lvl,
               le_message = msg, le_details = details \<rparr>),
          arrays := (arrays st) (logs c := arrays st (logs c) @ [next_addr st]),
          next_addr := Suc (next_addr st),
          clock_reads := Suc (clock_reads st) \<rparr>"

text \<open>What a holder of an array does to it: any push, pop, splice or assignment leaves
  some list in its place.\<close>

definition write_array :: "nat \<Rightarrow> nat list \<Rightarrow> 'n state \<Rightarrow> 'n state" where
  "write_array a xs st = st \<lparr> arrays := (arrays st) (a := xs) \<rparr>"

subsection \<open>Orders\<close>

text \<open>\<open>error instanceof Error ? error.message : String(error)\<close>\<close>

definition error_text :: "thrown \<Rightarrow> string" where
  "error_text e = (case e of JsError nm msg \<Rightarrow> msg | NonError v \<Rightarrow> v)"

text \<open>\<open>s.slice(-8)\<close>\<close>

definition last8 :: "string \<Rightarrow> string" where
  "last8 s = drop (length s - 8) s"

definition initClobClient ::
  "'n clob_env \<Rightarrow> PolymarketClient \<Rightarrow> 'n state
     \<Rightarrow> (thrown + clob_handle) \<times> PolymarketClient \<times> 'n state" where
  "initClobClient env c st =
     (case clobClient c of
        Some h \<Rightarrow> (Inr h, c, st)
      | None \<Rightarrow>
          let st1 = log env c INFO ''Initializing Polymarket CLOB client...'' None st in
          (case new_Wallet env (privateKey (config c)) of
             Some e \<Rightarrow>
               (Inl e, c,
                log env c ERROR (''Failed to initialize CLOB client: '' @ error_text e) None st1)
           | None \<Rightarrow>
               let st2 = st1 \<lparr> net_calls := net_calls st1 @ [DeriveApiKey] \<rparr> in
               (case createOrDeriveApiKey env (length (net_calls st1)) of
                  Inl e \<Rightarrow>
                    (Inl e, c,
                     log env c ERROR (''Failed to initialize CLOB client: '' @ error_text e) None st2)
                | Inr creds \<Rightarrow>
                    let st3 = log env c INFO ''API credentials derived successfully'' None st2;
                        h = \<lparr> ch_signer = privateKey (config c), ch_creds = creds,
                              ch_signatureType = signatureType (config c),
                              ch_funder = proxyAddress (config c) \<rparr>;
                        c' = c \<lparr> clobClient := Some h \<rparr>
                    in (Inr h, c',
                        log env c' SUCCESS ''CLOB client initialized''
                          (Some [(''funder'', DStr (take 10 (proxyAddress (config c)) @ ''...'' @
                                                   last8 (proxyAddress (config c)))),
                                 (''signatureType'', DInt (signatureType (config c)))])
                          st3))))"

definition side_name :: "OrderSideType \<Rightarrow> string" where
  "side_name sd = (case sd of BUY \<Rightarrow> ''BUY'' | SELL \<Rightarrow> ''SELL'')"

text \<open>The \<open>try\<close> block of \<open>placeOrder\<close> (lines 195-224).\<close>

definition post_order ::
  "'n numeric \<Rightarrow> 'n clob_env \<Rightarrow> 'n OrderArgs \<Rightarrow> PolymarketClient \<Rightarrow> 'n state
     \<Rightarrow> (thrown + OrderResponse) \<times> PolymarketClient \<times> 'n state" where
  "post_order ops env order c st =
     (case initClobClient env c st of
        (Inl e, c1, st1) \<Rightarrow> (Inl e, c1, st1)
      | (Inr client, c1, st1) \<Rightarrow>
          let posted = \<lparr> po_tokenID = oa_tokenId order, po_price = oa_price order,
                         po_side = oa_side order, po_size = num_floor ops (oa_size order) \<rparr>;
              st2 = st1 \<lparr> net_calls := net_calls st1 @ [PostOrder posted] \<rparr>
          in (case createAndPostOrder env (length (net_calls st1)) posted of
                Inl e \<Rightarrow> (Inl e, c1, st2)
              | Inr orderResponse \<Rightarrow>
                  let oid = or_else (opt_prop orderResponse ''orderID'') (opt_prop orderResponse ''id'')
                  in (Inr \<lparr> or_success = True, or_orderId = oid, or_errorMsg = None,
                            or_status = Some (or_default (opt_prop orderResponse ''status'')
                                                (JStr ''submitted'')) \<rparr>,
                      c1,
                      log env c1 SUCCESS ''Order placed successfully''
                        (Some [(''orderId'', DJson oid),
                               (''status'', DJson (opt_prop orderResponse ''status''))])
                        st2)))"

definition failure :: "string \<Rightarrow> OrderResponse" where
  "failure msg =
     \<lparr> or_success = False, or_orderId = None, or_errorMsg = Some msg, or_status = None \<rparr>"

definition placeOrder ::
  "'n numeric \<Rightarrow> 'n clob_env \<Rightarrow> 'n OrderArgs \<Rightarrow> PolymarketClient \<Rightarrow> 'n state
     \<Rightarrow> (thrown + OrderResponse) \<times> PolymarketClient \<times> 'n state" where
  "placeOrder ops env order c st =
     (if privateKey (config c) = [] then
        (Inr (failure ''Missing private key. Please set POLYMARKET_WALLET_PRIVATE_KEY.''), c,
         log env c ERROR ''Missing private key for order placement'' None st)
      else if proxyAddress (config c) = [] then
        (Inr (failure ''Missing proxy address. Please set POLYMARKET_PROXY_WALLET_ADDRESS.''), c,
         log env c ERROR ''Missing proxy address for order placement'' None st)
      else
        let st0 = log env c INFO (''Placing '' @ side_name (oa_side order) @ '' order'')
                    (Some [(''tokenId'', DStr (take 16 (oa_tokenId order) @ ''...'')),
                           (''price'', DNum (oa_price order)),
                           (''size'', DNum (num_floor ops (oa_size order)))])
                    st
        in (case post_order ops env order c st0 of
              (Inr res, c1, st1) \<Rightarrow> (Inr res, c1, st1)
            | (Inl error, c1, st1) \<Rightarrow>
                (Inr (failure (error_text error)), c1,
                 log env c1 ERROR (''Failed to place order: '' @ error_text error) None st1)))"

definition placeStraddleOrders ::
  "'n numeric \<Rightarrow> 'n clob_env \<Rightarrow> TokenIds \<Rightarrow> 'n \<Rightarrow> 'n \<Rightarrow> PolymarketClient \<Rightarrow> 'n state
     \<Rightarrow> (thrown + OrderResponse \<times> OrderResponse) \<times> PolymarketClient \<times> 'n state" where
  "placeStraddleOrders ops env tokenIds price sizeUsd c st =
     (let sz = num_div ops sizeUsd price;
          st0 = log env c INFO ''Placing straddle orders''
                  (Some [(''price'', DStr (num_percent ops price @ ''%'')),
                         (''sizeUsd'', DStr (''$'' @ num_show ops sizeUsd)),
                         (''shares'', DNum (num_floor ops sz))])
                  st
      in case placeOrder ops env
                \<lparr> oa_tokenId = tk_up tokenIds, oa_price = price, oa_size = sz, oa_side = BUY \<rparr>
                c st0 of
           (Inl e, c1, st1) \<Rightarrow> (Inl e, c1, st1)
         | (Inr upResult, c1, st1) \<Rightarrow>
             (case placeOrder ops env
                     \<lparr> oa_tokenId = tk_down tokenIds, oa_price = price, oa_size = sz, oa_side = BUY \<rparr>
                     c1 st1 of
                (Inl e, c2, st2) \<Rightarrow> (Inl e, c2, st2)
              | (Inr downResult, c2, st2) \<Rightarrow> (Inr (upResult, downResult), c2, st2)))"

section \<open>Scenarios\<close>

text \<open>Concrete responses, a concrete platform and concrete upstream behaviours, used to
  run the gateway on explicit inputs.\<close>

definition text_response :: "nat \<Rightarrow> string \<Rightarrow> string \<Rightarrow> response" where
  "text_response st txt body =
     \<lparr> status = st, statusText = txt, payment_required = None,
       body_text = Inr body,
       body_json = Inl (JsError ''SyntaxError'' ''Unexpected token in JSON'') \<rparr>"

definition json_response :: "json \<Rightarrow> response" where
  "json_response v =
     \<lparr> status = 200, statusText = ''OK'', payment_required = None,
       body_text = Inr [], body_json = Inr v \<rparr>"

definition challenge_response :: "string \<Rightarrow> response" where
  "challenge_response header =
     \<lparr> status = 402, statusText = ''Payment Required'', payment_required = Some header,
       body_text = Inr [],
       body_json = Inl (JsError ''SyntaxError'' ''Unexpected end of JSON input'') \<rparr>"

definition during :: "thrown + response \<Rightarrow> thrown + response \<Rightarrow> attempt_env" where
  "during first second =
     \<lparr> initial = first, paid = second, date_now = 1700000000123,
       random_bytes = (\<lambda>i. of_nat (7 * i)),
       clock = \<lparr> t_created = 1700000001000, t_id = 1700000001001, t_msg = 1700000001002 \<rparr> \<rparr>"

definition no_paid :: "thrown + response" where
  "no_paid = Inl (JsError ''TypeError'' ''fetch failed'')"

definition demo_platform :: platform where
  "demo_platform =
     \<lparr> atob = (\<lambda>s. if prefix ''b64:'' s then Inr (drop 4 s)
                    else Inl (JsError ''InvalidCharacterError'' ''Failed to decode base64'')),
       JSON_parse = (\<lambda>s.
          if s = ''solana-only'' then
            Inr (JObj [(''x402Version'', JNum 2),
                       (''accepts'', JArr [JObj [(''network'', JStr ''solana''),
                                                 (''amount'', JStr ''1000'')]])])
          else if s = ''base'' then
            Inr (JObj [(''x402Version'', JNum 2),
                       (''accepts'', JArr [JObj [(''network'', JStr ''eip155:8453''),
                                                 (''asset'', JStr ''0xUSDC''),
                                                 (''payTo'', JStr ''0xPayee''),
                                                 (''amount'', JStr ''1000''),
                                                 (''maxTimeoutSeconds'', JNum 60)]])])
          else Inl (JsError ''SyntaxError'' ''Unexpected token in JSON'')),
       BigInt = (\<lambda>v. if v = JStr ''1000'' then Inr 1000 else if v = JStr ''0'' then Inr 0
                      else Inl (JsError ''SyntaxError'' ''Cannot convert to a BigInt'')),
       Wallet_address = (\<lambda>k. Inr ''0xWallet''),
       signTypedData = (\<lambda>k d m. Inr ''0xSignature''),
       dollars_toFixed6 = (\<lambda>n. if n = 1000 then ''0.001000'' else ''0.000000'') \<rparr>"

definition env_always_503 :: "nat \<Rightarrow> attempt_env" where
  "env_always_503 i = during (Inr (text_response 503 ''Service Unavailable'' ''busy'')) no_paid"

definition env_503_404 :: "nat \<Rightarrow> attempt_env" where
  "env_503_404 i =
     (if i = 0 then during (Inr (text_response 503 ''Service Unavailable'' ''busy'')) no_paid
      else if i = 1 then during (Inr (text_response 404 ''Not Found'' ''no such model'')) no_paid
      else during (Inr (json_response (JObj []))) no_paid)"

definition env_408 :: "nat \<Rightarrow> attempt_env" where
  "env_408 i =
     (if i = 0 then during (Inr (text_response 408 ''Request Timeout'' ''slow'')) no_paid
      else during (Inr (json_response (JObj []))) no_paid)"

definition env_solana_then_base :: "nat \<Rightarrow> attempt_env" where
  "env_solana_then_base i =
     (if i = 0 then during (Inr (challenge_response ''b64:solana-only'')) no_paid
      else during (Inr (challenge_response ''b64:base'')) (Inr (json_response (JObj []))))"




definition null_clock :: norm_clock where
  "null_clock = \<lparr> t_created = 1700000001000, t_id = 1700000001001, t_msg = 1700000001002 \<rparr>"


definition empty_state :: "int state" where
  "empty_state = \<lparr> arrays = (\<lambda>a. []), entries = (\<lambda>a. None), next_addr = 0, clock_reads = 0,
                    net_calls = [] \<rparr>"

definition quiet_env :: "int clob_env" where
  "quiet_env =
     \<lparr> iso_time = (\<lambda>k. ''2026-01-01T00:00:00.000Z''),
       new_Wallet = (\<lambda>k. None),
       createOrDeriveApiKey = (\<lambda>k. Inr ''creds''),
       createAndPostOrder = (\<lambda>k order.
          if po_tokenID order = ''up-token'' then Inl (JsError ''Error'' ''not enough balance'')
          else Inr (Some (JObj [(''orderID'', JStr ''order-1''), (''status'', JStr ''live'')]))) \<rparr>"

definition int_numeric :: "int numeric" where
  "int_numeric = \<lparr> num_div = (\<lambda>a b. a div b), num_floor = (\<lambda>a. a),
                    num_percent = (\<lambda>a. show_int (a * 100) @ ''.0''), num_show = show_int \<rparr>"

definition demo_client :: PolymarketClient where
  "demo_client = fst (new_PolymarketClient ''0xkey'' ''0xproxy'' None empty_state)"

definition demo_state :: "int state" where
  "demo_state =
     log quiet_env demo_client INFO ''hello'' None
       (snd (new_PolymarketClient ''0xkey'' ''0xproxy'' None empty_state))"

definition nokey_client :: PolymarketClient where
  "nokey_client = fst (new_PolymarketClient [] ''0xproxy'' None empty_state)"

definition ready_client :: PolymarketClient where
  "ready_client =
     demo_client \<lparr> clobClient := Some \<lparr> ch_signer = ''0xkey'', ch_creds = ''creds'',
                                         ch_signatureType = 1, ch_funder = ''0xproxy'' \<rparr> \<rparr>"

definition up_order :: "int OrderArgs" where
  "up_order = \<lparr> oa_tokenId = ''up-token'', oa_price = 2, oa_size = 25, oa_side = BUY \<rparr>"

definition demo_tokens :: TokenIds where
  "demo_tokens = \<lparr> tk_up = ''up-token'', tk_down = ''down-token'' \<rparr>"

section \<open>Properties\<close>

subsection \<open>Routing\<close>

text \<open>The routing is a first-match chain; a model that starts with \<open>blockrun/\<close> or is a
  key of the alias map goes to BlockRun, and the three models named by the spec go where
  it says.\<close>

lemma getAIProvider_first_match:
  "getAIProvider m =
     (if isBlockRunModel m then blockrun else if isOpenAIModel m then openai else grok)"
  by (simp add: getAIProvider_def)

lemma getAIProvider_prefix_or_key:
  "prefix ''blockrun/'' m \<or> m \<in> fst ` set BLOCKRUN_MODELS \<Longrightarrow> getAIProvider m = blockrun"
  by (auto simp: getAIProvider_def isBlockRunModel_def key_in_def)

lemma getAIProvider_named_models:
  "getAIProvider ''blockrun/gpt-4o'' = blockrun"
  "map_of BLOCKRUN_MODELS ''blockrun/gpt-4o'' = Some ''openai/gpt-4o''"
  "getAIProvider ''gpt-4.1'' = openai"
  "getAIProvider ''llama-3-70b'' = grok"
  by (simp_all add: getAIProvider_def isBlockRunModel_def isOpenAIModel_def key_in_def
      BLOCKRUN_MODELS_def OPENAI_MODELS_def Object_prototype_keys_def)

text \<open>Which models reach the default: those that match neither rule and are not a
  property name that the alias object inherits.\<close>

lemma getAIProvider_grok_iff:
  "getAIProvider m = grok \<longleftrightarrow>
     \<not> prefix ''blockrun/'' m \<and> m \<notin> fst ` set BLOCKRUN_MODELS \<and> m \<notin> set Object_prototype_keys
     \<and> m \<notin> set OPENAI_MODELS \<and> \<not> prefix ''gpt-'' m"
  by (auto simp: getAIProvider_def isBlockRunModel_def isOpenAIModel_def key_in_def)

text \<open>
  C5 (the code departs from it). The claim: a model goes to BlockRun when it starts with
  \<open>blockrun/\<close> or is a key of the alias map, otherwise to OpenAI when it is in the allow-list
  or starts with \<open>gpt-\<close>, and every other model string goes to the Grok default. The code
  tests the alias with \<open>model in BLOCKRUN_MODELS\<close>, which also holds for the property names
  that every object inherits. The model string \<open>toString\<close> has no \<open>blockrun/\<close> prefix, is no
  key of the alias map, is not in the OpenAI allow-list and has no \<open>gpt-\<close> prefix, yet
  \<open>isBlockRunModel\<close> accepts it and \<open>getAIProvider\<close> sends it to BlockRun, not to Grok.
\<close>

theorem inherited_name_routes_to_blockrun:
  "\<not> prefix ''blockrun/'' ''toString''
   \<and> ''toString'' \<notin> fst ` set BLOCKRUN_MODELS
   \<and> ''toString'' \<notin> set OPENAI_MODELS
   \<and> \<not> prefix ''gpt-'' ''toString''
   \<and> isBlockRunModel ''toString''
   \<and> getAIProvider ''toString'' = blockrun
   \<and> getAIProvider ''constructor'' = blockrun
   \<and> getAIProvider ''valueOf'' = blockrun"
  by (simp add: getAIProvider_def isBlockRunModel_def isOpenAIModel_def key_in_def
      BLOCKRUN_MODELS_def OPENAI_MODELS_def Object_prototype_keys_def)

subsection \<open>Fetch with a timeout\<close>

lemma show_nat_120000: "show_nat 120000 = ''120000''"
  by (simp add: show_nat.simps digit_char_def)

text \<open>
  C7. \<open>fetchWithTimeout(url, options, timeoutMs)\<close>: when the transport aborts through the
  timeout's signal (the rejection is an error named \<open>AbortError\<close>), the call fails with an
  error whose message carries the configured duration; any other transport failure comes
  out unchanged; on success the response comes out as it is. The timer is disarmed on every
  path.
\<close>

theorem fetchWithTimeout_outcomes:
  "fst (fetchWithTimeout (Inl (JsError ''AbortError'' msg)) timeoutMs) =
     Inl (JsError ''Error'' (''Request timeout after '' @ show_nat timeoutMs @ ''ms''))
   \<and> (\<not> is_abort_error error \<longrightarrow> fst (fetchWithTimeout (Inl error) timeoutMs) = Inl error)
   \<and> fst (fetchWithTimeout (Inr resp) timeoutMs) = Inr resp
   \<and> snd (fetchWithTimeout transport timeoutMs) = [SetTimeout timeoutMs, ClearTimeout]"
  by (simp add: fetchWithTimeout_def is_abort_error_def split: sum.splits)

theorem fetchWithTimeout_outcomes_witness:
  "\<not> is_abort_error (JsError ''TypeError'' ''fetch failed'')
   \<and> fst (fetchWithTimeout (Inl (JsError ''TypeError'' ''fetch failed'')) 120000) =
       Inl (JsError ''TypeError'' ''fetch failed'')
   \<and> fst (fetchWithTimeout (Inl (JsError ''AbortError'' ''The signal has been aborted'')) 120000) =
       Inl (JsError ''Error'' ''Request timeout after 120000ms'')"
  using fetchWithTimeout_outcomes [of "''The signal has been aborted''" 120000
      "JsError ''TypeError'' ''fetch failed''"]
  by (simp add: is_abort_error_def show_nat_120000)

subsection \<open>Response normalisation\<close>

text \<open>
  C6 (amended). \<open>transformToResponseResult\<close> never throws on missing optional fields: for
  every raw payload other than the bare JSON \<open>null\<close> it returns a result; the text is the
  first choice's message content when that is truthy and the empty string otherwise, and a
  usage counter is the upstream's when that is truthy and 0 otherwise. When \<open>choices\<close> is
  absent the text is empty, when \<open>usage\<close> is absent the three counters are 0, and for the
  payload \<open>{choices: [{message: {content: "X"}}]}\<close> the text is \<open>"X"\<close> and the three counters
  are 0.
\<close>

theorem transformToResponseResult_defaults:
  "(response \<noteq> JNull \<longrightarrow>
      (\<exists>r. transformToResponseResult response cost clk = Inr r
        \<and> map ot_text (concat (map msg_content (result_output r))) =
            [or_default (opt_prop (opt_prop (index0 (or_default (opt_prop (Some response) ''choices'') (JArr [])))
                ''message'') ''content'') (JStr [])]
        \<and> (opt_prop (Some response) ''choices'' = None \<longrightarrow>
              map ot_text (concat (map msg_content (result_output r))) = [JStr []])
        \<and> (opt_prop (Some response) ''usage'' = None \<longrightarrow>
              input_tokens (usage r) = JNum 0 \<and> output_tokens (usage r) = JNum 0
              \<and> total_tokens (usage r) = JNum 0)))
   \<and> (\<exists>r. transformToResponseResult
              (JObj [(''choices'', JArr [JObj [(''message'', JObj [(''content'', JStr ''X'')])]])])
              cost clk = Inr r
        \<and> map ot_text (concat (map msg_content (result_output r))) = [JStr ''X'']
        \<and> input_tokens (usage r) = JNum 0 \<and> output_tokens (usage r) = JNum 0
        \<and> total_tokens (usage r) = JNum 0)"
proof -
  have nn: "get_prop response k = Inr (opt_prop (Some response) k)" if "response \<noteq> JNull" for k
    using that by (cases response) simp_all
  show ?thesis
    by (simp add: transformToResponseResult_def nn or_default_def Let_def)
qed

theorem transformToResponseResult_defaults_witness:
  "JObj [(''id'', JStr ''r1'')] \<noteq> JNull
   \<and> (\<exists>r. transformToResponseResult (JObj [(''id'', JStr ''r1'')]) None
              \<lparr> t_created = 5000, t_id = 5001, t_msg = 5002 \<rparr> = Inr r
        \<and> result_id r = JStr ''r1''
        \<and> map ot_text (concat (map msg_content (result_output r))) = [JStr []]
        \<and> input_tokens (usage r) = JNum 0 \<and> output_tokens (usage r) = JNum 0
        \<and> total_tokens (usage r) = JNum 0)"
  using transformToResponseResult_defaults [of "JObj [(''id'', JStr ''r1'')]" None
      "\<lparr> t_created = 5000, t_id = 5001, t_msg = 5002 \<rparr>"]
  by (auto simp add: transformToResponseResult_def or_default_def Let_def)

text \<open>The claim as it was stated, for every raw payload, fails for the body \<open>null\<close>, which
  \<open>response.json()\<close> can return and the callers pass on unchecked: reading
  \<open>response.choices\<close> throws a \<open>TypeError\<close>.\<close>

theorem transformToResponseResult_null_counterexample:
  "transformToResponseResult JNull None null_clock =
     Inl (JsError ''TypeError'' ''Cannot read properties of null (reading 'choices')'')"
  by (simp add: transformToResponseResult_def)

subsection \<open>The retry loop\<close>

lemma on_http_error_shape:
  assumes "on_http_error error r maxRetries attempt = (ex, evs)"
  shows "schedule evs = (if is_continued ex then [Sleep (backoffMs attempt)] else [])"
    and "is_continued ex \<Longrightarrow> int attempt < maxRetries"
  using assms by (auto simp: on_http_error_def schedule_def is_continued_def split: if_splits)

lemma pay_and_retry_shape:
  assumes "pay_and_retry pf env walletKey maxRetries attempt req = (ex, cost, evs)"
  shows "schedule evs = (if is_continued ex then [Sleep (backoffMs attempt)] else [])"
    and "is_continued ex \<Longrightarrow> int attempt < maxRetries"
  using assms
  by (auto simp: pay_and_retry_def Let_def schedule_def is_continued_def
      dest: on_http_error_shape split: sum.splits if_splits prod.splits)

lemma try_block_shape:
  assumes "try_block pf env walletKey maxRetries attempt c = (ex, cost, evs)"
  shows "schedule evs = InitialRequest # (if is_continued ex then [Sleep (backoffMs attempt)] else [])"
    and "is_continued ex \<Longrightarrow> int attempt < maxRetries"
  using assms
  by (auto simp: try_block_def Let_def schedule_def is_continued_def
      dest: on_http_error_shape pay_and_retry_shape split: sum.splits if_splits prod.splits option.splits)


lemma attempt_once_shape:
  assumes "attempt_once pf env walletKey maxRetries attempt c = (it, cost, evs)"
  shows "schedule evs =
           (case it of Finished out \<Rightarrow> [InitialRequest]
            | NextAttempt e \<Rightarrow> [InitialRequest, Sleep (backoffMs attempt)])"
    and "(case it of Finished out \<Rightarrow> True | NextAttempt e \<Rightarrow> int attempt < maxRetries)"
proof -
  obtain ex cost' evs' where tb: "try_block pf env walletKey maxRetries attempt c = (ex, cost', evs')"
    by (cases "try_block pf env walletKey maxRetries attempt c") auto
  note sh = try_block_shape [OF tb]
  show "schedule evs =
           (case it of Finished out \<Rightarrow> [InitialRequest]
            | NextAttempt e \<Rightarrow> [InitialRequest, Sleep (backoffMs attempt)])"
    using assms tb sh
    by (cases ex)
      (auto simp: attempt_once_def catch_block_def Let_def schedule_def is_continued_def
        split: if_splits)
  show "(case it of Finished out \<Rightarrow> True | NextAttempt e \<Rightarrow> int attempt < maxRetries)"
    using assms tb sh
    by (cases ex)
      (auto simp: attempt_once_def catch_block_def Let_def is_continued_def split: if_splits)
qed

lemma schedule_append: "schedule (xs @ ys) = schedule xs @ schedule ys"
  by (simp add: schedule_def)

lemma retry_loop_schedule:
  "int attempt \<le> maxRetries \<Longrightarrow>
   \<exists>k. int attempt + int k \<le> maxRetries \<and>
     schedule (snd (retry_loop pf env walletKey maxRetries attempt lastError c)) =
       InitialRequest # concat (map (\<lambda>i. [Sleep (backoffMs i), InitialRequest]) [attempt..<attempt + k])"
proof (induction pf env walletKey maxRetries attempt lastError c rule: retry_loop.induct)
  case (1 pf env walletKey maxRetries attempt lastError c)
  obtain it cost evs where ao:
    "attempt_once pf (env attempt) walletKey maxRetries attempt c = (it, cost, evs)"
    by (cases "attempt_once pf (env attempt) walletKey maxRetries attempt c") auto
  note sh = attempt_once_shape [OF ao]
  show ?case
  proof (cases it)
    case (Finished out)
    then have "schedule (snd (retry_loop pf env walletKey maxRetries attempt lastError c)) =
        [InitialRequest]"
      using "1.prems" ao sh by (simp add: retry_loop.simps [of pf env walletKey maxRetries attempt])
    then show ?thesis using "1.prems" by (intro exI [of _ 0]) simp
  next
    case (NextAttempt e)
    then have lt: "int attempt < maxRetries" using sh(2) by simp
    then have le: "int (Suc attempt) \<le> maxRetries" by simp
    have "\<exists>k. int (Suc attempt) + int k \<le> maxRetries \<and>
      schedule (snd (retry_loop pf env walletKey maxRetries (Suc attempt) (Some e) cost)) =
        InitialRequest # concat (map (\<lambda>i. [Sleep (backoffMs i), InitialRequest]) [Suc attempt..<Suc attempt + k])"
      using "1.IH" "1.prems" ao NextAttempt le by auto
    then obtain k where k: "int (Suc attempt) + int k \<le> maxRetries"
      and rest: "schedule (snd (retry_loop pf env walletKey maxRetries (Suc attempt) (Some e) cost)) =
        InitialRequest # concat (map (\<lambda>i. [Sleep (backoffMs i), InitialRequest]) [Suc attempt..<Suc attempt + k])"
      by auto
    have upt: "[attempt..<attempt + Suc k] = attempt # [Suc attempt..<Suc attempt + k]"
      by (simp add: upt_conv_Cons del: upt_Suc)
    have "schedule (snd (retry_loop pf env walletKey maxRetries attempt lastError c)) =
        schedule evs @ schedule (snd (retry_loop pf env walletKey maxRetries (Suc attempt) (Some e) cost))"
      using "1.prems" ao NextAttempt
      by (simp add: retry_loop.simps [of pf env walletKey maxRetries attempt] schedule_append
          split: prod.splits)
    also have "\<dots> = InitialRequest # concat (map (\<lambda>i. [Sleep (backoffMs i), InitialRequest])
        [attempt..<attempt + Suc k])"
      unfolding upt using sh(1) NextAttempt rest by (simp del: upt_Suc)
    finally show ?thesis using k by (intro exI [of _ "Suc k"]) simp
  qed
qed


lemma attempts_schedule: "attempts (schedule tr) = attempts tr"
  by (induction tr) (auto simp: attempts_def schedule_def split: event.splits)

lemma sleeps_schedule: "sleeps (schedule tr) = sleeps tr"
  by (induction tr) (auto simp: sleeps_def schedule_def split: event.splits)

lemma attempts_pattern:
  "attempts (concat (map (\<lambda>i. [Sleep (f i), InitialRequest]) xs)) = length xs"
  by (induction xs) (auto simp: attempts_def)

lemma sleeps_pattern:
  "sleeps (concat (map (\<lambda>i. [Sleep (f i), InitialRequest]) xs)) = map f xs"
  by (induction xs) (auto simp: sleeps_def)

lemma retry_loop_no_attempt:
  "\<not> int attempt \<le> maxRetries \<Longrightarrow>
   snd (retry_loop pf env walletKey maxRetries attempt lastError c) = []"
  by (simp add: retry_loop.simps [of pf env walletKey maxRetries attempt])

text \<open>
  C3. Whatever the upstream answers, and so for every sequence of failures classified as
  retryable, \<open>callBlockRunResponses\<close> makes at most \<open>maxRetries + 1\<close> attempts, and the sleep
  between attempt \<open>i\<close> and attempt \<open>i + 1\<close> (counted from 0) is \<open>min(1000 * 2^i, 10000)\<close>
  milliseconds: the trace without its paid requests is an attempt, then a sleep and an
  attempt for each \<open>i\<close> in order. (For a negative \<open>maxRetries\<close> there is no attempt.)
\<close>

theorem callBlockRunResponses_attempts_and_backoff:
  "(let tr = snd (callBlockRunResponses pf env walletKey maxRetries); n = attempts tr in
      n \<le> nat (maxRetries + 1)
      \<and> sleeps tr = map (\<lambda>i. min (1000 * 2 ^ i) 10000) [0..<n - 1]
      \<and> schedule tr =
          (if n = 0 then []
           else InitialRequest #
             concat (map (\<lambda>i. [Sleep (min (1000 * 2 ^ i) 10000), InitialRequest]) [0..<n - 1])))"
proof -
  define tr where "tr = snd (callBlockRunResponses pf env walletKey maxRetries)"
  have bo: "backoffMs = (\<lambda>i. min (1000 * 2 ^ i) 10000)"
    by (rule ext) (simp add: backoffMs_def)
  consider (none) "tr = []"
    | (run) key where "tr = snd (retry_loop pf env key maxRetries 0 None None)" "0 \<le> maxRetries"
  proof (cases walletKey)
    case None
    then have "tr = []" by (simp add: tr_def callBlockRunResponses_def)
    then show ?thesis by (rule none)
  next
    case (Some key)
    show ?thesis
    proof (cases "key = [] \<or> \<not> 0 \<le> maxRetries")
      case True
      then have "tr = []"
        using Some retry_loop_no_attempt [of 0 maxRetries pf env key None None]
        by (auto simp: tr_def callBlockRunResponses_def)
      then show ?thesis by (rule none)
    next
      case False
      then show ?thesis using Some by (intro run [of key]) (auto simp: tr_def callBlockRunResponses_def)
    qed
  qed
  then have "attempts tr \<le> nat (maxRetries + 1)
      \<and> sleeps tr = map backoffMs [0..<attempts tr - 1]
      \<and> schedule tr =
          (if attempts tr = 0 then []
           else InitialRequest #
             concat (map (\<lambda>i. [Sleep (backoffMs i), InitialRequest]) [0..<attempts tr - 1]))"
  proof cases
    case none
    then show ?thesis by (simp add: attempts_def sleeps_def schedule_def)
  next
    case (run key)
    from retry_loop_schedule [of 0 maxRetries pf env key None None] run
    obtain k where k: "int k \<le> maxRetries"
      and sch: "schedule tr =
        InitialRequest # concat (map (\<lambda>i. [Sleep (backoffMs i), InitialRequest]) [0..<k])"
      by auto
    have n: "attempts tr = Suc k"
      using arg_cong [OF sch, of attempts] attempts_pattern [of backoffMs "[0..<k]"]
      by (simp add: attempts_schedule) (simp add: attempts_def)
    have sl: "sleeps tr = map backoffMs [0..<k]"
      using arg_cong [OF sch, of sleeps] sleeps_pattern [of backoffMs "[0..<k]"]
      by (simp add: sleeps_schedule) (simp add: sleeps_def)
    show ?thesis using n sl sch k by simp
  qed
  then show ?thesis unfolding tr_def bo by (simp add: Let_def)
qed

text \<open>An upstream that answers 503 to every request, with \<open>maxRetries = 6\<close>: seven attempts
  and the sleeps 1000, 2000, 4000, 8000, 10000 and 10000 ms (the cap), for \<open>i\<close> from 0 to 5.\<close>

theorem callBlockRunResponses_attempts_and_backoff_witness:
  "snd (callBlockRunResponses demo_platform env_always_503 (Some ''0xkey'') 6) =
     [InitialRequest, Sleep 1000, InitialRequest, Sleep 2000, InitialRequest, Sleep 4000,
      InitialRequest, Sleep 8000, InitialRequest, Sleep 10000, InitialRequest, Sleep 10000,
      InitialRequest]
   \<and> attempts (snd (callBlockRunResponses demo_platform env_always_503 (Some ''0xkey'') 6)) = 7
   \<and> sleeps (snd (callBlockRunResponses demo_platform env_always_503 (Some ''0xkey'') 6)) =
       [1000, 2000, 4000, 8000, 10000, 10000]"
proof -
  have step: "attempt_once demo_platform (env_always_503 i) ''0xkey'' 6 i cost =
      (if 6 \<le> i
       then (Finished (Inl (http_error ''BlockRun API error: ''
                (text_response 503 ''Service Unavailable'' ''busy'') ''busy'')), cost, [InitialRequest])
       else (NextAttempt (http_error ''BlockRun API error: ''
                (text_response 503 ''Service Unavailable'' ''busy'') ''busy''), cost,
             [InitialRequest, Sleep (backoffMs i)]))" for i cost
    by (simp add: attempt_once_def try_block_def fetchWithTimeout_def ok_def on_http_error_def
        catch_block_def as_Error_def http_error_def env_always_503_def during_def
        text_response_def)
  have run: "snd (callBlockRunResponses demo_platform env_always_503 (Some ''0xkey'') 6) =
     [InitialRequest, Sleep 1000, InitialRequest, Sleep 2000, InitialRequest, Sleep 4000,
      InitialRequest, Sleep 8000, InitialRequest, Sleep 10000, InitialRequest, Sleep 10000,
      InitialRequest]"
    by (simp add: callBlockRunResponses_def retry_loop.simps step backoffMs_def)
  show ?thesis
    using callBlockRunResponses_attempts_and_backoff
      [of demo_platform env_always_503 "Some ''0xkey''" 6]
    unfolding run by (simp add: attempts_def sleeps_def)
qed

text \<open>
  How one attempt ends on a client error and on a challenge without a Base option, at any
  attempt index: the call ends only at attempt 0 with a message that no substring of
  \<open>isRetryableError\<close> matches, or when no retry is left. The message of the unsupported-network
  error always matches (it contains "network").
\<close>

lemma unsupported_network_message_retryable:
  "isRetryableError (JsError ''Error''
     ''Failed to parse payment requirements: Error: BlockRun does not accept Base network payments'')"
  by (simp add: isRetryableError_def toLowerCase_def lower_char_def Let_def)

lemma client_error_exit:
  assumes "initial env = Inr r" "400 \<le> status r" "status r < 500" "status r \<noteq> 429" "status r \<noteq> 402"
    and "body_text r = Inr errorText"
  shows "attempt_once pf env walletKey maxRetries attempt cost =
           (let error = http_error ''BlockRun API error: '' r errorText in
            if (\<not> isRetryableError error \<and> attempt = 0) \<or> int attempt \<ge> maxRetries
            then (Finished (Inl error), cost, [InitialRequest])
            else (NextAttempt error, cost, [InitialRequest, Sleep (backoffMs attempt)]))"
  using assms
  by (simp add: attempt_once_def try_block_def fetchWithTimeout_def ok_def on_http_error_def
      catch_block_def as_Error_def http_error_def Let_def)

lemma unsupported_network_exit:
  assumes "initial env = Inr r" "status r = 402" "payment_required r = Some header" "header \<noteq> []"
    and "atob pf header = Inr decoded" "JSON_parse pf decoded = Inr parsed"
    and "get_prop parsed ''accepts'' = Inr acc" "or_default acc (JArr [parsed]) = JArr accepts"
    and "find_base accepts = Inr None"
  shows "attempt_once pf env walletKey maxRetries attempt cost =
           (let error = JsError ''Error''
              ''Failed to parse payment requirements: Error: BlockRun does not accept Base network payments''
            in if int attempt \<ge> maxRetries
               then (Finished (Inl error), cost, [InitialRequest])
               else (NextAttempt error, cost, [InitialRequest, Sleep (backoffMs attempt)]))"
  using assms unsupported_network_message_retryable
  by (simp add: attempt_once_def try_block_def fetchWithTimeout_def
      parse_payment_requirements_def select_base_option_def string_of_thrown_def
      catch_block_def as_Error_def Let_def)

lemmas gateway_defs =
  callBlockRunResponses_def attempt_once_def try_block_def pay_and_retry_def catch_block_def
  on_http_error_def http_error_def as_Error_def isRetryableError_def backoffMs_def
  fetchWithTimeout_def is_abort_error_def ok_def transformToResponseResult_def
  parse_payment_requirements_def select_base_option_def string_of_thrown_def
  createBlockRunPaymentHeader_def make_authorization_def formatUsdcCost_def to_BigInt_def
  amount_of_def timeout_of_def or_default_def or_else_def
  toLowerCase_def lower_char_def show_nat.simps digit_char_def Let_def

lemmas scenario_defs =
  text_response_def json_response_def challenge_response_def during_def no_paid_def
  demo_platform_def env_503_404_def env_408_def env_solana_then_base_def

text \<open>
  C1 (the code departs from it). The claim: a response with a status in [400,500) other
  than 429 ends the call at once, at whatever attempt it is seen. The code throws the
  error inside the \<open>try\<close>, and the \<open>catch\<close> of the same attempt rethrows only at attempt 0
  with a message that is not classified as retryable, or when the attempts are used up.
  Below, a 404 seen at attempt 1 is followed by a sleep of 2000 ms and a third attempt,
  and a 408 seen at attempt 0 (its status text contains "timeout") is followed by a sleep
  of 1000 ms and a second attempt.
\<close>

theorem client_error_is_retried:
  "(\<exists>r. callBlockRunResponses pf env_503_404 (Some ''0xkey'') 3 =
        (Inr r, [InitialRequest, Sleep 1000, InitialRequest, Sleep 2000, InitialRequest]))
   \<and> (\<exists>r. callBlockRunResponses pf env_408 (Some ''0xkey'') 3 =
        (Inr r, [InitialRequest, Sleep 1000, InitialRequest]))"
  by (simp add: gateway_defs scenario_defs retry_loop.simps)

text \<open>
  C2 (the code departs from it). The claim: a 402 whose challenge names no Base option
  ends the call at once, with no paid request and no retry. The error raised for it has
  the word "network" in its message, which \<open>isRetryableError\<close> takes for a network failure;
  so with retries left the code sleeps and starts the cycle again, and a later attempt may
  pay. Below, the second challenge offers Base and the call ends with a paid request.
\<close>

theorem unsupported_network_is_retried:
  "parse_payment_requirements demo_platform ''b64:solana-only'' =
     Inl (JsError ''Error''
       ''Failed to parse payment requirements: Error: BlockRun does not accept Base network payments'')
   \<and> isRetryableError (JsError ''Error''
       ''Failed to parse payment requirements: Error: BlockRun does not accept Base network payments'')
   \<and> (\<exists>r p. callBlockRunResponses demo_platform env_solana_then_base (Some ''0xkey'') 3 =
        (Inr r, [InitialRequest, Sleep 1000, InitialRequest, PaidRequest p]))"
  by (simp add: gateway_defs scenario_defs retry_loop.simps)

subsection \<open>The payment authorization\<close>













subsection \<open>The Polymarket client\<close>

lemma net_calls_log [simp]: "net_calls (log env c lvl msg d st) = net_calls st"
  by (simp add: log_def)

lemma next_addr_log [simp]: "next_addr (log env c lvl msg d st) = Suc (next_addr st)"
  by (simp add: log_def)

lemma arrays_log:
  "arrays (log env c lvl msg d st) a =
     (if a = logs c then arrays st (logs c) @ [next_addr st] else arrays st a)"
  by (simp add: log_def)

lemma new_PolymarketClient_allocated:
  "new_PolymarketClient key proxy sigType st = (c, st') \<Longrightarrow> logs c < next_addr st'"
  by (auto simp: new_PolymarketClient_def)

lemma clearLogs_allocated:
  "clearLogs c st = (c', st') \<Longrightarrow> logs c' < next_addr st'"
  by (auto simp: clearLogs_def)

lemma log_allocated: "logs c < next_addr st \<Longrightarrow> logs c < next_addr (log env c lvl msg d st)"
  by simp

lemma getLogs_allocated: "logs c < next_addr st \<Longrightarrow> logs c < next_addr (snd (getLogs c st))"
  by (simp add: getLogs_def)

text \<open>
  C8. \<open>getLogs\<close> returns a fresh copy of the log list. For a client whose log array is
  allocated: the array returned is not the client's array and has the same elements; the
  client's array is unchanged by the call and by any later write to the returned array;
  a later \<open>log\<close> leaves the returned array as it was; and a second \<open>getLogs\<close> with no logging
  in between returns another array again, with equal contents.
\<close>

theorem getLogs_fresh_copy:
  assumes "logs c < next_addr st"
  shows "(case getLogs c st of (a1, st1) \<Rightarrow>
           a1 \<noteq> logs c
         \<and> arrays st1 a1 = arrays st (logs c)
         \<and> arrays st1 (logs c) = arrays st (logs c)
         \<and> (\<forall>xs. arrays (write_array a1 xs st1) (logs c) = arrays st (logs c))
         \<and> (\<forall>lvl msg d. arrays (log env c lvl msg d st1) a1 = arrays st (logs c))
         \<and> (case getLogs c st1 of (a2, st2) \<Rightarrow>
               a2 \<noteq> a1 \<and> a2 \<noteq> logs c \<and> arrays st2 a2 = arrays st2 a1
             \<and> arrays st2 a2 = arrays st (logs c)))"
  using assms by (auto simp: getLogs_def write_array_def arrays_log)


theorem getLogs_fresh_copy_witness:
  "logs demo_client < next_addr demo_state
   \<and> logs demo_client = 0
   \<and> fst (getLogs demo_client demo_state) = 2
   \<and> arrays (snd (getLogs demo_client demo_state)) 2 = [1]
   \<and> arrays (write_array 2 [] (snd (getLogs demo_client demo_state))) (logs demo_client) = [1]"
proof -
  have h: "logs demo_client < next_addr demo_state"
    by (simp add: demo_client_def demo_state_def new_PolymarketClient_def empty_state_def)
  show ?thesis
    using h getLogs_fresh_copy [OF h, of quiet_env]
    by (simp add: demo_client_def demo_state_def new_PolymarketClient_def empty_state_def
        getLogs_def log_def write_array_def)
qed

lemma placeOrder_returns:
  "\<exists>r c' st'. placeOrder ops env order c st = (Inr r, c', st')"
  by (simp add: placeOrder_def Let_def split: prod.splits sum.splits)

lemma initClobClient_cached:
  "clobClient c = Some h \<Longrightarrow> initClobClient env c st = (Inr h, c, st)"
  by (simp add: initClobClient_def)

lemma initClobClient_net_calls:
  "initClobClient env c st = (res, c', st') \<Longrightarrow>
   net_calls st' = net_calls st @ (if clobClient c = None \<and> new_Wallet env (privateKey (config c)) = None
                                   then [DeriveApiKey] else [])"
  by (auto simp: initClobClient_def Let_def split: option.splits sum.splits)

text \<open>
  C10. \<open>placeOrder\<close> never throws: for every input it returns an \<open>OrderResponse\<close>. With the
  private key or the proxy address missing it returns \<open>{success: false, errorMsg}\<close> and makes
  no network call. An exception raised while the client is initialised (by the wallet
  constructor or by the derivation of the API key) or while the order is posted is caught
  and returned as \<open>{success: false, errorMsg}\<close> with the exception's text.
\<close>

theorem placeOrder_never_throws:
  "\<exists>r c' st'. placeOrder ops env order c st = (Inr r, c', st')
     \<and> (privateKey (config c) = [] \<longrightarrow>
          r = failure ''Missing private key. Please set POLYMARKET_WALLET_PRIVATE_KEY.''
          \<and> net_calls st' = net_calls st)
     \<and> (privateKey (config c) \<noteq> [] \<and> proxyAddress (config c) = [] \<longrightarrow>
          r = failure ''Missing proxy address. Please set POLYMARKET_PROXY_WALLET_ADDRESS.''
          \<and> net_calls st' = net_calls st)
     \<and> (privateKey (config c) \<noteq> [] \<and> proxyAddress (config c) \<noteq> [] \<longrightarrow>
          (\<forall>e. clobClient c = None \<and> new_Wallet env (privateKey (config c)) = Some e
                \<longrightarrow> r = failure (error_text e))
        \<and> (\<forall>e. clobClient c = None \<and> new_Wallet env (privateKey (config c)) = None
                \<and> createOrDeriveApiKey env (length (net_calls st)) = Inl e
                \<longrightarrow> r = failure (error_text e))
        \<and> (\<forall>e creds. clobClient c = None \<and> new_Wallet env (privateKey (config c)) = None
                \<and> createOrDeriveApiKey env (length (net_calls st)) = Inr creds
                \<and> createAndPostOrder env (Suc (length (net_calls st)))
                      \<lparr> po_tokenID = oa_tokenId order, po_price = oa_price order,
                        po_side = oa_side order, po_size = num_floor ops (oa_size order) \<rparr> = Inl e
                \<longrightarrow> r = failure (error_text e))
        \<and> (\<forall>e h. clobClient c = Some h
                \<and> createAndPostOrder env (length (net_calls st))
                      \<lparr> po_tokenID = oa_tokenId order, po_price = oa_price order,
                        po_side = oa_side order, po_size = num_floor ops (oa_size order) \<rparr> = Inl e
                \<longrightarrow> r = failure (error_text e)))"
  by (auto simp: placeOrder_def post_order_def initClobClient_def Let_def
      split: prod.splits sum.splits option.splits)


theorem placeOrder_never_throws_witness:
  "privateKey (config nokey_client) = []
   \<and> fst (placeOrder int_numeric quiet_env up_order nokey_client empty_state) =
       Inr (failure ''Missing private key. Please set POLYMARKET_WALLET_PRIVATE_KEY.'')
   \<and> net_calls (snd (snd (placeOrder int_numeric quiet_env up_order nokey_client empty_state))) = []
   \<and> clobClient ready_client \<noteq> None
   \<and> fst (placeOrder int_numeric quiet_env up_order ready_client empty_state) =
       Inr (failure ''not enough balance'')"
  using placeOrder_never_throws [of int_numeric quiet_env up_order nokey_client empty_state]
    placeOrder_never_throws [of int_numeric quiet_env up_order ready_client empty_state]
  by (auto simp: nokey_client_def ready_client_def demo_client_def new_PolymarketClient_def
      empty_state_def quiet_env_def int_numeric_def up_order_def error_text_def)

lemma placeOrder_cached_net_calls:
  assumes "privateKey (config c) \<noteq> []" "proxyAddress (config c) \<noteq> []" "clobClient c = Some h"
    and "placeOrder ops env order c st = (res, c', st')"
  shows "c' = c"
    and "net_calls st' = net_calls st @
           [PostOrder \<lparr> po_tokenID = oa_tokenId order, po_price = oa_price order,
                         po_side = oa_side order, po_size = num_floor ops (oa_size order) \<rparr>]"
  using assms
  by (auto simp: placeOrder_def post_order_def initClobClient_cached Let_def
      split: prod.splits sum.splits)

text \<open>
  C9. \<open>placeStraddleOrders(tokenIds, price, sizeUsd)\<close> always places both legs in
  sequence: a BUY order on the up token and then, whatever the first call returned, a BUY
  order on the down token, each of size \<open>sizeUsd / price\<close>; it returns the two results as
  they are. With a configured and initialised client the two orders are posted to the
  exchange in this order (each with the floor of the size), also when the first post
  fails.
\<close>

theorem placeStraddleOrders_both_legs:
  "\<exists>st0 upResult c1 st1 downResult c2 st2.
      st0 = log env c INFO ''Placing straddle orders''
              (Some [(''price'', DStr (num_percent ops price @ ''%'')),
                     (''sizeUsd'', DStr (''$'' @ num_show ops sizeUsd)),
                     (''shares'', DNum (num_floor ops (num_div ops sizeUsd price)))]) st
    \<and> placeOrder ops env
          \<lparr> oa_tokenId = tk_up tokenIds, oa_price = price,
            oa_size = num_div ops sizeUsd price, oa_side = BUY \<rparr> c st0 = (Inr upResult, c1, st1)
    \<and> placeOrder ops env
          \<lparr> oa_tokenId = tk_down tokenIds, oa_price = price,
            oa_size = num_div ops sizeUsd price, oa_side = BUY \<rparr> c1 st1 = (Inr downResult, c2, st2)
    \<and> placeStraddleOrders ops env tokenIds price sizeUsd c st = (Inr (upResult, downResult), c2, st2)
    \<and> (privateKey (config c) \<noteq> [] \<and> proxyAddress (config c) \<noteq> [] \<and> clobClient c \<noteq> None \<longrightarrow>
          net_calls st2 = net_calls st @
            [PostOrder \<lparr> po_tokenID = tk_up tokenIds, po_price = price, po_side = BUY,
                          po_size = num_floor ops (num_div ops sizeUsd price) \<rparr>,
             PostOrder \<lparr> po_tokenID = tk_down tokenIds, po_price = price, po_side = BUY,
                          po_size = num_floor ops (num_div ops sizeUsd price) \<rparr>])"
proof -
  define st0 where "st0 = log env c INFO ''Placing straddle orders''
              (Some [(''price'', DStr (num_percent ops price @ ''%'')),
                     (''sizeUsd'', DStr (''$'' @ num_show ops sizeUsd)),
                     (''shares'', DNum (num_floor ops (num_div ops sizeUsd price)))]) st"
  define upOrder where "upOrder = \<lparr> oa_tokenId = tk_up tokenIds, oa_price = price,
            oa_size = num_div ops sizeUsd price, oa_side = BUY \<rparr>"
  define downOrder where "downOrder = \<lparr> oa_tokenId = tk_down tokenIds, oa_price = price,
            oa_size = num_div ops sizeUsd price, oa_side = BUY \<rparr>"
  obtain upResult c1 st1 where up: "placeOrder ops env upOrder c st0 = (Inr upResult, c1, st1)"
    using placeOrder_returns by blast
  obtain downResult c2 st2 where down: "placeOrder ops env downOrder c1 st1 = (Inr downResult, c2, st2)"
    using placeOrder_returns by blast
  have both: "placeStraddleOrders ops env tokenIds price sizeUsd c st = (Inr (upResult, downResult), c2, st2)"
    using up down by (simp add: placeStraddleOrders_def Let_def st0_def upOrder_def downOrder_def)
  have calls: "net_calls st2 = net_calls st @
            [PostOrder \<lparr> po_tokenID = tk_up tokenIds, po_price = price, po_side = BUY,
                          po_size = num_floor ops (num_div ops sizeUsd price) \<rparr>,
             PostOrder \<lparr> po_tokenID = tk_down tokenIds, po_price = price, po_side = BUY,
                          po_size = num_floor ops (num_div ops sizeUsd price) \<rparr>]"
    if cfg: "privateKey (config c) \<noteq> []" "proxyAddress (config c) \<noteq> []" and h: "clobClient c = Some h" for h
  proof -
    note u = placeOrder_cached_net_calls [OF cfg h up]
    have d: "net_calls st2 = net_calls st1 @ [PostOrder \<lparr> po_tokenID = oa_tokenId downOrder,
        po_price = oa_price downOrder, po_side = oa_side downOrder,
        po_size = num_floor ops (oa_size downOrder) \<rparr>]"
      using placeOrder_cached_net_calls(2) [OF _ _ _ down, of h] cfg h u(1) by simp
    show ?thesis using u(2) d by (simp add: st0_def upOrder_def downOrder_def)
  qed
  show ?thesis
    using up down both calls
    unfolding st0_def upOrder_def downOrder_def by blast
qed

theorem placeStraddleOrders_both_legs_witness:
  "privateKey (config ready_client) \<noteq> [] \<and> proxyAddress (config ready_client) \<noteq> []
   \<and> clobClient ready_client \<noteq> None
   \<and> fst (placeStraddleOrders int_numeric quiet_env demo_tokens 2 50 ready_client empty_state) =
       Inr (failure ''not enough balance'',
            \<lparr> or_success = True, or_orderId = Some (JStr ''order-1''), or_errorMsg = None,
              or_status = Some (JStr ''live'') \<rparr>)
   \<and> net_calls (snd (snd (placeStraddleOrders int_numeric quiet_env demo_tokens 2 50
                              ready_client empty_state))) =
       [PostOrder \<lparr> po_tokenID = ''up-token'', po_price = 2, po_side = BUY, po_size = 25 \<rparr>,
        PostOrder \<lparr> po_tokenID = ''down-token'', po_price = 2, po_side = BUY, po_size = 25 \<rparr>]"
  using placeStraddleOrders_both_legs [where env = quiet_env and c = ready_client
      and ops = int_numeric and price = 2 and sizeUsd = 50 and tokenIds = demo_tokens
      and st = empty_state]
  by (simp add: ready_client_def demo_client_def new_PolymarketClient_def empty_state_def
      quiet_env_def int_numeric_def demo_tokens_def error_text_def failure_def
      placeStraddleOrders_def placeOrder_def post_order_def initClobClient_def log_def
      or_else_def or_default_def Let_def)

end
